theory Spec2Isabelle
  imports Main "HOL-Library.Word"
begin

section \<open>The CarPlay process supervisor (modules/carplay\_module.py)\<close>

text \<open>
  A shallow embedding of \<^verbatim>\<open>CarPlayManager\<close>. The object's fields are a record that every
  method takes and returns; what the operating system answers during a call (does the
  executable exist, what does \<^verbatim>\<open>lsusb\<close> print, does \<^verbatim>\<open>Popen\<close> raise, has the child exited)
  is an argument of the call; what the call does to the outside (directories made, files
  written, processes spawned and signalled, bytes written to the pipe) is returned as a
  list of effects in the order the code performs them. Calls to \<^verbatim>\<open>print\<close> and
  \<^verbatim>\<open>time.sleep\<close> are left out: no claim is about the log or about elapsed time.
\<close>

subsection \<open>Python values and strings\<close>

text \<open>
  The dictionaries the methods return, with the keys in the order of the dict literal.
\<close>

datatype pyval =
    PNone
  | PBool bool
  | PStr string
  | PDict "(string \<times> pyval) list"

definition opt_str :: "string option \<Rightarrow> pyval" where
  "opt_str x = (case x of None \<Rightarrow> PNone | Some t \<Rightarrow> PStr t)"

definition dict_get :: "pyval \<Rightarrow> string \<Rightarrow> pyval option" where
  "dict_get d k = (case d of PDict kvs \<Rightarrow> map_of kvs k | _ \<Rightarrow> None)"

definition dict_keys :: "pyval \<Rightarrow> string list" where
  "dict_keys d = (case d of PDict kvs \<Rightarrow> map fst kvs | _ \<Rightarrow> [])"

text \<open>
  An exception that reaches a handler of the module: the handlers of \<^verbatim>\<open>start\<close> tell
  \<^verbatim>\<open>FileNotFoundError\<close> from every other \<^verbatim>\<open>Exception\<close>; the argument is \<^verbatim>\<open>str(e)\<close>.
\<close>

datatype exn = FileNotFoundError string | OtherException string

fun str_exn :: "exn \<Rightarrow> string" where
  "str_exn (FileNotFoundError m) = m"
| "str_exn (OtherException m) = m"

text \<open>\<^verbatim>\<open>needle in haystack\<close> on strings.\<close>

fun str_in :: "string \<Rightarrow> string \<Rightarrow> bool" where
  "str_in p [] = (p = [])"
| "str_in p (c # cs) = (take (length p) (c # cs) = p \<or> str_in p cs)"

text \<open>
  A string is a list of characters, each one code point below 256; text with a code point
  beyond that is outside the model. \<^verbatim>\<open>str.lower()\<close> on these: the letters \<^verbatim>\<open>A\<close> to
  \<^verbatim>\<open>Z\<close> (65 to 90) and the accented capitals (192 to 222, the multiplication sign 215
  apart) move up by 32, every other character is kept. \<^verbatim>\<open>str.strip()\<close> strips the
  characters that \<^verbatim>\<open>str.isspace()\<close> accepts: 9 to 13, 28 to 32, 133 and 160.
\<close>

definition lower_char :: "char \<Rightarrow> char" where
  "lower_char c =
     (let n = (of_char c :: nat)
      in if (65 \<le> n \<and> n \<le> 90) \<or> (192 \<le> n \<and> n \<le> 222 \<and> n \<noteq> 215)
         then char_of (n + 32) else c)"

definition lower :: "string \<Rightarrow> string" where
  "lower s = map lower_char s"

definition is_space :: "char \<Rightarrow> bool" where
  "is_space c =
     (let n = (of_char c :: nat)
      in (9 \<le> n \<and> n \<le> 13) \<or> (28 \<le> n \<and> n \<le> 32) \<or> n = 133 \<or> n = 160)"

definition strip :: "string \<Rightarrow> string" where
  "strip s = rev (dropWhile is_space (rev (dropWhile is_space s)))"

text \<open>\<^verbatim>\<open>str(n)\<close> for a Python integer, as the f-string of the settings file formats it.\<close>

fun digits_of :: "nat \<Rightarrow> string" where
  "digits_of n =
     (if n < 10 then [char_of (48 + n)] else digits_of (n div 10) @ [char_of (48 + n mod 10)])"

definition str_int :: "int \<Rightarrow> string" where
  "str_int i = (if i < 0 then CHR ''-'' # digits_of (nat (- i)) else digits_of (nat i))"

subsection \<open>The supervisor's state\<close>

text \<open>
  The fields of \<^verbatim>\<open>CarPlayManager\<close> (the lock apart: calls are modelled one at a time).
  The process handle is the identifier of the \<^verbatim>\<open>Popen\<close> object, \<open>None\<close> for Python's
  \<^verbatim>\<open>None\<close>.
\<close>

record manager =
  is_running :: bool
  carplay_process :: "nat option"
  engine_dir :: string
  executable_path :: string
  settings_path :: string
  pipe_path :: string
  last_status :: string
  connected_device :: "string option"
  error_message :: "string option"

text \<open>
  \<^verbatim>\<open>/\<close> of \<^verbatim>\<open>pathlib\<close>, on the string of a path and a name with no \<^verbatim>\<open>/\<close> in it:
  the current directory \<^verbatim>\<open>.\<close> gives the name alone, and a path that ends in \<^verbatim>\<open>/\<close>
  (the root) takes no second separator.
\<close>

definition join :: "string \<Rightarrow> string \<Rightarrow> string" where
  "join p name =
     (if p = ''.'' then name
      else if p \<noteq> [] \<and> last p = CHR ''/'' then p @ name
      else p @ ''/'' @ name)"

text \<open>
  \<^verbatim>\<open>__init__\<close>. The project root is \<^verbatim>\<open>Path(__file__).parent.parent\<close>, which the source
  does not fix: it is the argument, as \<^verbatim>\<open>str\<close> gives it.
\<close>

definition init :: "string \<Rightarrow> manager" where
  "init project_root =
     \<lparr> is_running = False,
       carplay_process = None,
       engine_dir = join project_root ''carplay_engine'',
       executable_path = join (join (join project_root ''carplay_engine'') ''out'') ''app'',
       settings_path =
         join (join (join project_root ''carplay_engine'') ''conf'') ''settings.txt'',
       pipe_path = ''/tmp/fastcarplay_pipe'',
       last_status = ''stopped'',
       connected_device = None,
       error_message = None \<rparr>"

text \<open>\<^verbatim>\<open>settings_path.parent\<close>: the path up to its last \<^verbatim>\<open>/\<close>.\<close>

definition parent :: "string \<Rightarrow> string" where
  "parent p = rev (drop 1 (dropWhile (\<lambda>c. c \<noteq> CHR ''/'') (rev p)))"

subsection \<open>What the host answers, what a call does\<close>

text \<open>
  The two read-only queries of \<^verbatim>\<open>get_status\<close>: \<^verbatim>\<open>executable_path.exists()\<close> and the
  output of \<^verbatim>\<open>subprocess.run(['lsusb'], ...)\<close>, \<open>Inl\<close> when that call raises.
\<close>

record host =
  exe_exists :: bool
  lsusb :: "exn + string"

datatype effect =
    Mkdir string
  | OpenFile string string
  | WriteText string string
  | WriteBytes string "8 word list"
  | Popen "string list" "(string \<times> string) list" string
  | ThreadStart
  | Terminate nat
  | Wait nat "nat option"
  | Kill nat

definition is_built :: "host \<Rightarrow> bool" where
  "is_built h = exe_exists h"

definition dongle_ids :: "string list" where
  "dongle_ids = [''1314:'', ''1234:'', ''154b:'']"

definition is_dongle_connected :: "host \<Rightarrow> bool" where
  "is_dongle_connected h =
     (case lsusb h of
        Inl e \<Rightarrow> False
      | Inr out \<Rightarrow> list_ex (\<lambda>dongle_id. str_in dongle_id out) dongle_ids)"

definition get_status :: "manager \<Rightarrow> host \<Rightarrow> pyval" where
  "get_status s h =
     PDict [(''running'', PBool (is_running s)),
            (''built'', PBool (is_built h)),
            (''status'', PStr (last_status s)),
            (''connected_device'', opt_str (connected_device s)),
            (''dongle_detected'', PBool (is_dongle_connected h)),
            (''error'', opt_str (error_message s)),
            (''executable_path'', PStr (executable_path s)),
            (''settings_path'', PStr (settings_path s))]"

text \<open>The three-key dictionary that \<^verbatim>\<open>start\<close> and \<^verbatim>\<open>stop\<close> return on every path.\<close>

definition result :: "bool \<Rightarrow> string \<Rightarrow> pyval \<Rightarrow> pyval" where
  "result ok msg st = PDict [(''success'', PBool ok), (''message'', PStr msg), (''status'', st)]"

subsection \<open>The settings file\<close>

text \<open>
  \<^verbatim>\<open>_write_settings\<close>: the text of the f-string, line by line, each line ended by a
  newline; then the directory is made and the file is opened for writing and written.
\<close>

definition settings_lines :: "manager \<Rightarrow> bool \<Rightarrow> int \<Rightarrow> int \<Rightarrow> string list" where
  \<open>settings_lines s fullscreen width height =
     [''# FastCarPlay Settings - Auto-generated for Car Stereo System'',
      ''# Raspberry Pi 5 with 7" Touchscreen Configuration'',
      '''',
      ''# Display settings for 7" touchscreen (800x480)'',
      ''width = '' @ str_int width,
      ''height = '' @ str_int height,
      ''source-fps = 30'',
      ''fps = 30'',
      ''fullscreen = '' @ (if fullscreen then ''true'' else ''false''),
      ''cursor = false'',
      '''',
      ''# Dongle settings (adjust vendor/product ID if needed)'',
      ''# Use lsusb to find your dongle's ID'',
      ''# vendor-id = 4884'',
      ''# product-id = 5408'',
      '''',
      ''# Enable encryption for newer dongles'',
      ''encryption = false'',
      '''',
      ''# Connection settings'',
      ''autoconnect = true'',
      ''weak-charge = true'',
      ''left-hand-drive = true'',
      ''night-mode = 2'',
      '''',
      ''# WiFi settings'',
      ''wifi-5 = true'',
      ''bluetooth-audio = false'',
      ''mic-type = 1'',
      '''',
      ''# Android Auto settings'',
      ''android-dpi = 140'',
      ''android-resolution = 1'',
      ''android-media-delay = 300'',
      '''',
      ''# Performance settings for Pi 5'',
      ''font-size = 24'',
      ''vsync = false'',
      ''hw-decode = true'',
      ''fast-render-scale = true'',
      ''video-buffer-size = 32'',
      ''audio-buffer-size = 32'',
      ''audio-buffer-wait = 2'',
      ''audio-buffer-wait-call = 8'',
      ''audio-fade = 0.3'',
      '''',
      ''# Audio driver (pipewire recommended for Pi 5)'',
      ''# audio-driver = pipewire'',
      '''',
      ''# Named pipe for key commands from Flask'',
      ''key-pipe-path = '' @ pipe_path s,
      '''',
      ''# Enable logging for debugging (disable in production)'',
      ''logging = false'']\<close>

definition settings_text :: "manager \<Rightarrow> bool \<Rightarrow> int \<Rightarrow> int \<Rightarrow> string" where
  "settings_text s fullscreen width height =
     concat (map (\<lambda>l. l @ [CHR 0x0A]) (settings_lines s fullscreen width height))"

text \<open>
  What the host does during one call of \<^verbatim>\<open>start\<close>: whether \<^verbatim>\<open>mkdir\<close> (line 92) raises;
  whether the \<^verbatim>\<open>mkdir\<close>, the \<^verbatim>\<open>open\<close> and the \<^verbatim>\<open>write\<close> of \<^verbatim>\<open>_write_settings\<close> raise;
  \<^verbatim>\<open>os.environ\<close>; \<^verbatim>\<open>settings_path.exists()\<close>; what \<^verbatim>\<open>Popen\<close> gives (the new handle,
  or the exception it raises); what \<^verbatim>\<open>poll()\<close> returns after the half second (\<open>None\<close>:
  still alive); whether \<^verbatim>\<open>threading.Thread(...).start()\<close> raises; and
  \<^verbatim>\<open>stderr.decode()\<close> for the bytes that \<^verbatim>\<open>communicate()\<close> returns (the empty string
  for no bytes, \<open>Inl\<close> when the bytes do not decode).
\<close>

record start_env =
  start_host :: host
  mkdir_fault :: "exn option"
  ws_mkdir_fault :: "exn option"
  ws_open_fault :: "exn option"
  ws_write_fault :: "exn option"
  environ :: "(string \<times> string) list"
  settings_exists :: bool
  popen_outcome :: "exn + nat"
  poll_after_grace :: "int option"
  thread_fault :: "exn option"
  stderr_decoded :: "exn + string"

definition write_settings ::
  "manager \<Rightarrow> bool \<Rightarrow> int \<Rightarrow> int \<Rightarrow> start_env \<Rightarrow> exn option \<times> effect list" where
  "write_settings s fullscreen width height env =
     (case ws_mkdir_fault env of
        Some e \<Rightarrow> (Some e, [])
      | None \<Rightarrow>
          (case ws_open_fault env of
             Some e \<Rightarrow> (Some e, [Mkdir (parent (settings_path s))])
           | None \<Rightarrow>
               (case ws_write_fault env of
                  Some e \<Rightarrow>
                    (Some e, [Mkdir (parent (settings_path s)), OpenFile (settings_path s) ''w''])
                | None \<Rightarrow>
                    (None, [Mkdir (parent (settings_path s)),
                            OpenFile (settings_path s) ''w'',
                            WriteText (settings_path s)
                              (settings_text s fullscreen width height)]))))"

subsection \<open>start\<close>

text \<open>
  The two handlers of \<^verbatim>\<open>start\<close> (lines 145 to 159), entered with the state and the
  effects reached when the exception was raised.
\<close>

definition start_except ::
  "manager \<Rightarrow> host \<Rightarrow> exn \<Rightarrow> effect list \<Rightarrow> pyval \<times> manager \<times> effect list" where
  "start_except s h e effs =
     (case e of
        FileNotFoundError m \<Rightarrow>
          (let s' = s\<lparr>error_message := Some ''FastCarPlay executable not found''\<rparr>
           in (result False ''FastCarPlay executable not found'' (get_status s' h), s', effs))
      | OtherException m \<Rightarrow>
          (let s' = s\<lparr>error_message := Some m\<rparr>
           in (result False m (get_status s' h), s', effs)))"

text \<open>Lines 97 to 113: the environment with \<^verbatim>\<open>DISPLAY\<close> defaulted, and the command.\<close>

definition child_environ :: "start_env \<Rightarrow> (string \<times> string) list" where
  "child_environ env =
     (if map_of (environ env) ''DISPLAY'' = None
      then environ env @ [(''DISPLAY'', '':0'')] else environ env)"

definition command :: "manager \<Rightarrow> start_env \<Rightarrow> string list" where
  "command s env =
     [executable_path s] @ (if settings_exists env then [settings_path s] else [])"

text \<open>
  Line 138, \<^verbatim>\<open>stderr.decode() if stderr else 'Process terminated unexpectedly'\<close>, for
  the decoded text: no bytes decode to no characters.
\<close>

definition error_text :: "string \<Rightarrow> string" where
  "error_text decoded = (if decoded \<noteq> [] then decoded else ''Process terminated unexpectedly'')"

text \<open>
  Lines 115 to 143: after \<^verbatim>\<open>Popen\<close> returned the handle \<open>p\<close> and the half second
  passed. The three assignments of lines 120 to 122 come before the thread is started, so
  an exception of \<^verbatim>\<open>Thread.start()\<close> reaches the handlers with the flag set. The status
  in the result is the one at the moment the thread is started, before its first turn.
\<close>

definition start_spawned ::
  "manager \<Rightarrow> nat \<Rightarrow> start_env \<Rightarrow> effect list \<Rightarrow> pyval \<times> manager \<times> effect list" where
  "start_spawned s p env effs =
     (let s1 = s\<lparr>carplay_process := Some p\<rparr> in
      case poll_after_grace env of
        None \<Rightarrow>
          (let s2 = s1\<lparr>is_running := True, last_status := ''running'', error_message := None\<rparr>
           in case thread_fault env of
                Some e \<Rightarrow> start_except s2 (start_host env) e effs
              | None \<Rightarrow>
                  (result True ''CarPlay started successfully'' (get_status s2 (start_host env)),
                   s2, effs @ [ThreadStart]))
      | Some rc \<Rightarrow>
          (case stderr_decoded env of
             Inl e \<Rightarrow> start_except s1 (start_host env) e effs
           | Inr text \<Rightarrow>
               (let s2 = s1\<lparr>error_message := Some (error_text text)\<rparr>
                in (result False (''CarPlay failed to start: '' @ error_text text)
                      (get_status s2 (start_host env)), s2, effs))))"

definition start ::
  "manager \<Rightarrow> bool \<Rightarrow> int \<Rightarrow> int \<Rightarrow> start_env \<Rightarrow> pyval \<times> manager \<times> effect list" where
  "start s fullscreen width height env =
     (if is_running s then
        (result True ''CarPlay already running'' (get_status s (start_host env)), s, [])
      else if \<not> is_built (start_host env) then
        (result False ''FastCarPlay not built. Run build script first.''
           (get_status s (start_host env)), s, [])
      else
        (case mkdir_fault env of
           Some e \<Rightarrow> start_except s (start_host env) e []
         | None \<Rightarrow>
             (case write_settings s fullscreen width height env of
                (Some e, effs) \<Rightarrow>
                  start_except s (start_host env) e (Mkdir (parent (settings_path s)) # effs)
              | (None, effs) \<Rightarrow>
                  (case popen_outcome env of
                     Inl e \<Rightarrow>
                       start_except s (start_host env) e
                         (Mkdir (parent (settings_path s)) # effs)
                   | Inr p \<Rightarrow>
                       start_spawned s p env
                         (Mkdir (parent (settings_path s)) # effs @
                          [Popen (command s env) (child_environ env) (engine_dir s)])))))"

subsection \<open>stop\<close>

text \<open>
  What the host does during one call of \<^verbatim>\<open>stop\<close>: whether \<^verbatim>\<open>terminate()\<close> raises;
  whether \<^verbatim>\<open>wait(timeout=3)\<close> returns, raises \<^verbatim>\<open>TimeoutExpired\<close> or raises something
  else; whether \<^verbatim>\<open>kill()\<close> and the \<^verbatim>\<open>wait()\<close> after it raise.
\<close>

datatype wait_result = WaitExited | WaitTimedOut | WaitRaised exn

record stop_env =
  stop_host :: host
  terminate_fault :: "exn option"
  wait_outcome :: wait_result
  kill_fault :: "exn option"
  wait_after_kill_fault :: "exn option"

text \<open>Lines 185 to 195, and the handler of lines 197 to 205.\<close>

definition stop_finish :: "manager \<Rightarrow> host \<Rightarrow> effect list \<Rightarrow> pyval \<times> manager \<times> effect list" where
  "stop_finish s h effs =
     (let s' = s\<lparr>carplay_process := None, is_running := False, last_status := ''stopped'',
                 connected_device := None, error_message := None\<rparr>
      in (result True ''CarPlay stopped successfully'' (get_status s' h), s', effs))"

definition stop_except :: "manager \<Rightarrow> host \<Rightarrow> effect list \<Rightarrow> pyval \<times> manager \<times> effect list" where
  "stop_except s h effs =
     (let s' = s\<lparr>is_running := False, last_status := ''stopped''\<rparr>
      in (result True ''CarPlay stopped'' (get_status s' h), s', effs))"

text \<open>Lines 166 to 172: nothing to terminate.\<close>

definition stop_idle :: "manager \<Rightarrow> host \<Rightarrow> pyval \<times> manager \<times> effect list" where
  "stop_idle s h =
     (let s' = s\<lparr>is_running := False, last_status := ''stopped''\<rparr>
      in (result True ''CarPlay was not running'' (get_status s' h), s', []))"

text \<open>Lines 174 to 195, for the handle \<open>p\<close>.\<close>

definition stop_process :: "manager \<Rightarrow> nat \<Rightarrow> stop_env \<Rightarrow> pyval \<times> manager \<times> effect list" where
  "stop_process s p env =
     (case terminate_fault env of
        Some e \<Rightarrow> stop_except s (stop_host env) []
      | None \<Rightarrow>
          (case wait_outcome env of
             WaitRaised e \<Rightarrow> stop_except s (stop_host env) [Terminate p]
           | WaitExited \<Rightarrow> stop_finish s (stop_host env) [Terminate p, Wait p (Some 3)]
           | WaitTimedOut \<Rightarrow>
               (case kill_fault env of
                  Some e \<Rightarrow> stop_except s (stop_host env) [Terminate p, Wait p (Some 3)]
                | None \<Rightarrow>
                    (case wait_after_kill_fault env of
                       Some e \<Rightarrow>
                         stop_except s (stop_host env) [Terminate p, Wait p (Some 3), Kill p]
                     | None \<Rightarrow>
                         stop_finish s (stop_host env)
                           [Terminate p, Wait p (Some 3), Kill p, Wait p None]))))"

text \<open>
  The guard of line 165, \<^verbatim>\<open>not self.is_running or not self.carplay_process\<close>, fails
  exactly when the flag is set and the handle is not \<^verbatim>\<open>None\<close>.
\<close>

definition stop :: "manager \<Rightarrow> stop_env \<Rightarrow> pyval \<times> manager \<times> effect list" where
  "stop s env =
     (case (is_running s, carplay_process s) of
        (True, Some p) \<Rightarrow> stop_process s p env
      | _ \<Rightarrow> stop_idle s (stop_host env))"

subsection \<open>restart\<close>

text \<open>
  \<^verbatim>\<open>self.stop()\<close>, whose result is dropped, then \<^verbatim>\<open>self.start()\<close> with no argument:
  the defaults of line 72.
\<close>

definition restart :: "manager \<Rightarrow> stop_env \<Rightarrow> start_env \<Rightarrow> pyval \<times> manager \<times> effect list" where
  "restart s senv env =
     (case stop s senv of
        (r1, s1, effs1) \<Rightarrow>
          (case start s1 True 800 480 env of
             (r2, s2, effs2) \<Rightarrow> (r2, s2, effs1 @ effs2)))"

subsection \<open>send\_key\<close>

text \<open>
  What the host does during one call of \<^verbatim>\<open>send_key\<close>: \<^verbatim>\<open>os.path.exists(pipe_path)\<close>;
  how \<^verbatim>\<open>open(pipe_path, 'wb')\<close> ends; how the writing of the buffered bytes ends when
  the \<^verbatim>\<open>with\<close> block closes the pipe. Each of the two completes, or raises, or blocks
  for ever: opening a FIFO for writing waits for a reader, there is no timeout, and a call
  that waits for ever returns nothing.
\<close>

datatype io_outcome = Completes | Raises exn | Blocks

record key_env =
  pipe_exists :: bool
  open_outcome :: io_outcome
  write_outcome :: io_outcome

definition key_map :: "(string \<times> nat) list" where
  "key_map =
     [(''left'', 100),
      (''right'', 101),
      (''select_down'', 104),
      (''select_up'', 105),
      (''select'', 104),
      (''back'', 106),
      (''home'', 200)]"

text \<open>The two-key dictionary that \<^verbatim>\<open>send_key\<close> returns on every path.\<close>

definition key_result :: "bool \<Rightarrow> string \<Rightarrow> pyval" where
  "key_result ok msg = PDict [(''success'', PBool ok), (''message'', PStr msg)]"

text \<open>
  \<^verbatim>\<open>send_key\<close> changes no field of the object: it gives its result, \<open>None\<close> when the
  call never returns, and its effects. \<^verbatim>\<open>bytes([code])\<close> is the one byte \<open>code\<close>, every
  code of \<open>key_map\<close> being below 256.
\<close>

definition send_key :: "manager \<Rightarrow> string \<Rightarrow> key_env \<Rightarrow> pyval option \<times> effect list" where
  "send_key s key_code env =
     (if \<not> pipe_exists env then (Some (key_result False ''Key pipe not available''), [])
      else
        (case map_of key_map (lower key_code) of
           None \<Rightarrow> (Some (key_result False (''Unknown key: '' @ key_code)), [])
         | Some code \<Rightarrow>
             (case open_outcome env of
                Raises e \<Rightarrow> (Some (key_result False (str_exn e)), [])
              | Blocks \<Rightarrow> (None, [])
              | Completes \<Rightarrow>
                  (case write_outcome env of
                     Raises e \<Rightarrow>
                       (Some (key_result False (str_exn e)), [OpenFile (pipe_path s) ''wb''])
                   | Blocks \<Rightarrow> (None, [OpenFile (pipe_path s) ''wb''])
                   | Completes \<Rightarrow>
                       (Some (key_result True (''Key '' @ key_code @ '' sent'')),
                        [OpenFile (pipe_path s) ''wb'', WriteBytes (pipe_path s) [of_nat code]] @
                        (if lower key_code = ''select''
                         then [WriteBytes (pipe_path s) [105]] else []))))))"

text \<open>The bytes a list of effects writes to the file at \<open>path\<close>, in order.\<close>

fun bytes_written :: "string \<Rightarrow> effect list \<Rightarrow> 8 word list" where
  "bytes_written path [] = []"
| "bytes_written path (WriteBytes f bs # effs) =
     (if f = path then bs @ bytes_written path effs else bytes_written path effs)"
| "bytes_written path (e # effs) = bytes_written path effs"

subsection \<open>The output monitor\<close>

text \<open>
  One turn of the loop of \<^verbatim>\<open>_monitor_output\<close>, for what the thread sees in that turn:
  \<^verbatim>\<open>poll()\<close> is not \<^verbatim>\<open>None\<close>; or \<^verbatim>\<open>readline()\<close> returns no bytes; or it returns a line,
  given decoded; or something in the turn raises, which the handler of line 326 ends the
  thread on. The result says whether the loop goes on, and gives the state.
\<close>

datatype monitor_obs = ProcessExited | EndOfFile | Line string | MonitorRaised exn

definition parse_line :: "manager \<Rightarrow> string \<Rightarrow> manager" where
  "parse_line s decoded =
     (if str_in ''Connected'' decoded then
        s\<lparr>last_status := ''connected'', connected_device := Some ''CarPlay/Android Auto''\<rparr>
      else if str_in ''Disconnected'' decoded then
        s\<lparr>last_status := ''waiting'', connected_device := None\<rparr>
      else if str_in ''Error'' decoded then
        s\<lparr>error_message := Some decoded\<rparr>
      else s)"

definition monitor_turn :: "manager \<Rightarrow> monitor_obs \<Rightarrow> bool \<times> manager" where
  "monitor_turn s obs =
     (if is_running s \<and> carplay_process s \<noteq> None then
        (case obs of
           ProcessExited \<Rightarrow> (False, s\<lparr>is_running := False, last_status := ''stopped''\<rparr>)
         | EndOfFile \<Rightarrow> (True, s)
         | Line l \<Rightarrow> (True, parse_line s (strip l))
         | MonitorRaised e \<Rightarrow> (False, s))
      else (False, s))"

subsection \<open>Sequences of calls\<close>

text \<open>
  The calls that change the supervisor, one after the other: each public operation runs
  to its end under the lock, and a turn of the monitor falls between two of them.
\<close>

datatype event =
    DoStart bool int int start_env
  | DoStop stop_env
  | DoRestart stop_env start_env
  | MonitorTurn monitor_obs

fun apply_event :: "manager \<Rightarrow> event \<Rightarrow> manager" where
  "apply_event s (DoStart fullscreen width height env) =
     fst (snd (start s fullscreen width height env))"
| "apply_event s (DoStop env) = fst (snd (stop s env))"
| "apply_event s (DoRestart senv env) = fst (snd (restart s senv env))"
| "apply_event s (MonitorTurn obs) = snd (monitor_turn s obs)"

fun run :: "manager \<Rightarrow> event list \<Rightarrow> manager" where
  "run s [] = s"
| "run s (e # es) = run (apply_event s e) es"

text \<open>
  The lifecycle operations a sequence completes, oldest first: a \<^verbatim>\<open>start\<close> by the
  \<^verbatim>\<open>success\<close> of its result, a \<^verbatim>\<open>stop\<close>, a \<^verbatim>\<open>restart\<close> as the \<^verbatim>\<open>stop\<close> and the
  \<^verbatim>\<open>start\<close> it makes, and the monitor recording that the process has ended (lines 305
  to 309).
\<close>

datatype lifecycle = StartSucceeded | StartFailed | Stopped | ExitObserved

definition succeeded :: "pyval \<Rightarrow> bool" where
  "succeeded r = (dict_get r ''success'' = Some (PBool True))"

definition start_outcome :: "pyval \<Rightarrow> lifecycle" where
  "start_outcome r = (if succeeded r then StartSucceeded else StartFailed)"

fun lifecycle_of :: "manager \<Rightarrow> event \<Rightarrow> lifecycle list" where
  "lifecycle_of s (DoStart fullscreen width height env) =
     [start_outcome (fst (start s fullscreen width height env))]"
| "lifecycle_of s (DoStop env) = [Stopped]"
| "lifecycle_of s (DoRestart senv env) =
     [Stopped, start_outcome (fst (restart s senv env))]"
| "lifecycle_of s (MonitorTurn obs) =
     (if is_running s \<and> carplay_process s \<noteq> None \<and> obs = ProcessExited
      then [ExitObserved] else [])"

fun history :: "manager \<Rightarrow> event list \<Rightarrow> lifecycle list" where
  "history s [] = []"
| "history s (e # es) = lifecycle_of s e @ history (apply_event s e) es"

text \<open>
  The specification's reading of the flag: the last completed lifecycle operation is a
  successful \<^verbatim>\<open>start\<close>, so that no \<^verbatim>\<open>stop\<close> and no observed exit came after it.
\<close>

definition spec_running :: "lifecycle list \<Rightarrow> bool" where
  "spec_running h = (h \<noteq> [] \<and> last h = StartSucceeded)"

text \<open>The calls in which \<^verbatim>\<open>Thread.start()\<close>, if it is reached, does not raise.\<close>

fun thread_starts :: "event \<Rightarrow> bool" where
  "thread_starts (DoStart fullscreen width height env) = (thread_fault env = None)"
| "thread_starts (DoRestart senv env) = (thread_fault env = None)"
| "thread_starts (DoStop env) = True"
| "thread_starts (MonitorTurn obs) = True"

text \<open>
  The shape the specification gives every result of the control surface: a dictionary
  with a boolean \<^verbatim>\<open>success\<close>, a string \<^verbatim>\<open>message\<close> and a dictionary \<^verbatim>\<open>status\<close>.
\<close>

definition result_shaped :: "pyval \<Rightarrow> bool" where
  "result_shaped r =
     ((case dict_get r ''success'' of Some (PBool b) \<Rightarrow> True | _ \<Rightarrow> False) \<and>
      (case dict_get r ''message'' of Some (PStr m) \<Rightarrow> True | _ \<Rightarrow> False) \<and>
      (case dict_get r ''status'' of Some (PDict st) \<Rightarrow> True | _ \<Rightarrow> False))"

subsection \<open>Example hosts\<close>

text \<open>
  Concrete answers of the host, for the examples below: a built engine with a dongle on
  the bus; a child that stays alive; one that dies at once with a line on its standard
  error; one that dies at once and silently; a missing executable; a process that ends on
  \<^verbatim>\<open>SIGTERM\<close>; a \<^verbatim>\<open>terminate()\<close> that raises; a pipe that takes the bytes; a
  child that stays alive while the monitor thread cannot be started; a pipe with no reader.
\<close>

definition host_ok :: host where
  "host_ok = \<lparr> exe_exists = True, lsusb = Inr ''Bus 001 Device 004: ID 1314:1520 Magic'' \<rparr>"

definition env_alive :: start_env where
  "env_alive =
     \<lparr> start_host = host_ok,
       mkdir_fault = None,
       ws_mkdir_fault = None,
       ws_open_fault = None,
       ws_write_fault = None,
       environ = [(''HOME'', ''/root'')],
       settings_exists = True,
       popen_outcome = Inr 4242,
       poll_after_grace = None,
       thread_fault = None,
       stderr_decoded = Inr [] \<rparr>"

definition env_crash :: start_env where
  "env_crash = env_alive\<lparr>poll_after_grace := Some 1, stderr_decoded := Inr ''no dongle''\<rparr>"

definition env_silent :: start_env where
  "env_silent = env_alive\<lparr>poll_after_grace := Some 1\<rparr>"

definition env_unbuilt :: start_env where
  "env_unbuilt = env_alive\<lparr>start_host := host_ok\<lparr>exe_exists := False\<rparr>\<rparr>"

definition senv_clean :: stop_env where
  "senv_clean =
     \<lparr> stop_host = host_ok,
       terminate_fault = None,
       wait_outcome = WaitExited,
       kill_fault = None,
       wait_after_kill_fault = None \<rparr>"

definition senv_fault :: stop_env where
  "senv_fault = senv_clean\<lparr>terminate_fault := Some (OtherException ''Operation not permitted'')\<rparr>"

definition env_thread_fault :: start_env where
  "env_thread_fault = env_alive\<lparr>thread_fault := Some (OtherException ''can't start new thread'')\<rparr>"

definition kenv_ok :: key_env where
  "kenv_ok = \<lparr> pipe_exists = True, open_outcome = Completes, write_outcome = Completes \<rparr>"

definition kenv_no_reader :: key_env where
  "kenv_no_reader = kenv_ok\<lparr>open_outcome := Blocks\<rparr>"

definition started :: manager where
  "started = fst (snd (start (init ''/srv'') True 800 480 env_alive))"


text \<open>
  A call of \<^verbatim>\<open>stop\<close> in which nothing raises up to line 185: the process ends within
  the three seconds, or is killed and waited for.
\<close>

definition terminated_cleanly :: "stop_env \<Rightarrow> bool" where
  "terminated_cleanly env =
     (terminate_fault env = None \<and>
      (wait_outcome env = WaitExited \<or>
       (wait_outcome env = WaitTimedOut \<and> kill_fault env = None \<and>
        wait_after_kill_fault env = None)))"

text \<open>A call of \<^verbatim>\<open>start\<close> in which nothing raises before \<^verbatim>\<open>Popen\<close>.\<close>

definition setup_ok :: "start_env \<Rightarrow> bool" where
  "setup_ok env =
     (mkdir_fault env = None \<and> ws_mkdir_fault env = None \<and> ws_open_fault env = None \<and>
      ws_write_fault env = None)"

section \<open>Properties\<close>

subsection \<open>What each stage does to the flag and the handle\<close>

lemma succeeded_result [simp]: "succeeded (result ok msg st) = ok"
  by (simp add: succeeded_def result_def dict_get_def)

lemma start_except_fst: "succeeded (fst (start_except s h e effs)) = False"
  by (cases e) (simp_all add: start_except_def Let_def)

lemma start_except_running: "is_running (fst (snd (start_except s h e effs))) = is_running s"
  by (cases e) (simp_all add: start_except_def Let_def)

lemma start_except_handle:
  "carplay_process (fst (snd (start_except s h e effs))) = carplay_process s"
  by (cases e) (simp_all add: start_except_def Let_def)

lemma start_spawned_running:
  "\<not> is_running s \<Longrightarrow> thread_fault env = None \<Longrightarrow>
   is_running (fst (snd (start_spawned s p env effs))) =
   succeeded (fst (start_spawned s p env effs))"
  by (simp add: start_spawned_def Let_def start_except_fst start_except_running
      split: option.splits sum.splits)

lemma start_spawned_handle:
  "carplay_process (fst (snd (start_spawned s p env effs))) = Some p"
  by (simp add: start_spawned_def Let_def start_except_handle
      split: option.splits sum.splits)

lemma start_running_iff:
  assumes "thread_fault env = None"
  shows "is_running (fst (snd (start s f w h env))) = succeeded (fst (start s f w h env))"
proof (cases "is_running s")
  case True
  then show ?thesis by (simp add: start_def)
next
  case False
  obtain r effs where ws: "write_settings s f w h env = (r, effs)"
    by (cases "write_settings s f w h env")
  show ?thesis
    using False ws assms
    by (simp add: start_def start_except_fst start_except_running start_spawned_running
        split: option.splits sum.splits)
qed

lemma start_handle:
  assumes "is_running (fst (snd (start s f w h env)))"
  shows "is_running s \<or> carplay_process (fst (snd (start s f w h env))) \<noteq> None"
proof (cases "is_running s")
  case True
  then show ?thesis by simp
next
  case False
  obtain r effs where ws: "write_settings s f w h env = (r, effs)"
    by (cases "write_settings s f w h env")
  show ?thesis
    using False ws assms
    by (simp add: start_def start_except_running start_spawned_handle
        split: option.splits sum.splits if_splits)
qed

lemma stop_idle_simps:
  "succeeded (fst (stop_idle s h))"
  "is_running (fst (snd (stop_idle s h))) = False"
  "last_status (fst (snd (stop_idle s h))) = ''stopped''"
  "carplay_process (fst (snd (stop_idle s h))) = carplay_process s"
  "connected_device (fst (snd (stop_idle s h))) = connected_device s"
  "error_message (fst (snd (stop_idle s h))) = error_message s"
  "snd (snd (stop_idle s h)) = []"
  by (simp_all add: stop_idle_def Let_def)

lemma stop_except_simps:
  "succeeded (fst (stop_except s h effs))"
  "is_running (fst (snd (stop_except s h effs))) = False"
  "last_status (fst (snd (stop_except s h effs))) = ''stopped''"
  by (simp_all add: stop_except_def Let_def)

lemma stop_finish_simps:
  "succeeded (fst (stop_finish s h effs))"
  "is_running (fst (snd (stop_finish s h effs))) = False"
  "last_status (fst (snd (stop_finish s h effs))) = ''stopped''"
  "carplay_process (fst (snd (stop_finish s h effs))) = None"
  "connected_device (fst (snd (stop_finish s h effs))) = None"
  "error_message (fst (snd (stop_finish s h effs))) = None"
  by (simp_all add: stop_finish_def Let_def)

lemma stop_process_basic:
  "succeeded (fst (stop_process s p env)) \<and>
   is_running (fst (snd (stop_process s p env))) = False \<and>
   last_status (fst (snd (stop_process s p env))) = ''stopped''"
  by (simp add: stop_process_def stop_except_simps stop_finish_simps
      split: option.splits wait_result.splits)

lemma stop_basic:
  "succeeded (fst (stop s env)) \<and>
   is_running (fst (snd (stop s env))) = False \<and>
   last_status (fst (snd (stop s env))) = ''stopped''"
  by (simp add: stop_def stop_idle_simps stop_process_basic split: option.splits bool.splits)

lemma restart_running_iff:
  assumes "thread_fault env = None"
  shows "is_running (fst (snd (restart s senv env))) = succeeded (fst (restart s senv env))"
proof -
  obtain r1 s1 e1 where st: "stop s senv = (r1, s1, e1)"
    by (cases "stop s senv") auto
  obtain r2 s2 e2 where sa: "start s1 True 800 480 env = (r2, s2, e2)"
    by (cases "start s1 True 800 480 env") auto
  show ?thesis
    using start_running_iff[OF assms, of s1 True 800 480] st sa
    by (simp add: restart_def)
qed

lemma parse_line_keeps:
  "is_running (parse_line s d) = is_running s"
  "carplay_process (parse_line s d) = carplay_process s"
  by (simp_all add: parse_line_def)

lemma monitor_running:
  "is_running (snd (monitor_turn s obs)) =
     (is_running s \<and> \<not> (carplay_process s \<noteq> None \<and> obs = ProcessExited))"
  by (cases obs) (auto simp add: monitor_turn_def parse_line_keeps)

lemma monitor_handle:
  "carplay_process (snd (monitor_turn s obs)) = carplay_process s"
  by (cases obs) (auto simp add: monitor_turn_def parse_line_keeps)

lemmas example_defs =
  start_def init_def join_def env_alive_def env_crash_def env_silent_def env_unbuilt_def
  env_thread_fault_def host_ok_def is_built_def write_settings_def start_spawned_def
  start_except_def Let_def restart_def stop_def stop_process_def stop_finish_def
  stop_except_def stop_idle_def senv_clean_def senv_fault_def monitor_turn_def
  parse_line_def strip_def is_space_def started_def error_text_def

subsection \<open>The flag over a sequence of calls\<close>

lemma step_running:
  assumes "thread_starts e"
  shows "is_running (apply_event s e) =
     (if lifecycle_of s e = [] then is_running s else last (lifecycle_of s e) = StartSucceeded)"
proof (cases e)
  case (DoStart f w h env)
  then show ?thesis using assms by (simp add: start_running_iff start_outcome_def)
next
  case (DoStop env)
  then show ?thesis by (simp add: stop_basic)
next
  case (DoRestart senv env)
  then show ?thesis using assms by (simp add: restart_running_iff start_outcome_def)
next
  case (MonitorTurn obs)
  then show ?thesis by (auto simp add: monitor_running)
qed

lemma run_running:
  assumes "list_all thread_starts es"
  shows "is_running (run s es) =
     (if history s es = [] then is_running s else last (history s es) = StartSucceeded)"
  using assms
proof (induction es arbitrary: s)
  case Nil
  show ?case by simp
next
  case (Cons e es)
  have e: "thread_starts e" and es: "list_all thread_starts es"
    using Cons.prems by simp_all
  show ?case
    using Cons.IH[OF es, of "apply_event s e"] step_running[OF e, of s]
    by (simp add: last_append)
qed

text \<open>
  For the sequences in which the monitor thread, whenever a \<^verbatim>\<open>start\<close> comes to start
  it, does start: \<^verbatim>\<open>is_running\<close> is true exactly when the last completed lifecycle
  operation was a \<^verbatim>\<open>start\<close> that returned success, with no \<^verbatim>\<open>stop\<close> and no process
  exit recorded by the monitor after it.
\<close>

lemma running_iff_last_start_if_threads_start:
  assumes "list_all thread_starts es"
  shows "is_running (run (init root) es) = spec_running (history (init root) es)"
  using run_running[OF assms, of "init root"] by (simp add: spec_running_def init_def)

text \<open>
  Claim C1 says that \<^verbatim>\<open>is_running\<close> is true after a sequence of calls exactly when the
  last completed lifecycle operation was a successful \<^verbatim>\<open>start\<close> not followed by a
  \<^verbatim>\<open>stop\<close> or an observed exit. The code breaks it where \<^verbatim>\<open>Thread.start()\<close> raises
  (lines 125 to 128): line 120 has set the flag, the handler of lines 152 to 159 returns
  a failure and does not clear it. So after this one \<^verbatim>\<open>start\<close> on a new supervisor the
  call has failed, the history holds a failed \<^verbatim>\<open>start\<close> only, and the flag is true.
\<close>

theorem start_thread_fault_keeps_flag:
  "dict_get (fst (start (init ''/srv'') True 800 480 env_thread_fault)) ''success'' =
     Some (PBool False) \<and>
   history (init ''/srv'') [DoStart True 800 480 env_thread_fault] = [StartFailed] \<and>
   \<not> spec_running (history (init ''/srv'') [DoStart True 800 480 env_thread_fault]) \<and>
   is_running (run (init ''/srv'') [DoStart True 800 480 env_thread_fault])"
  by (simp add: example_defs spec_running_def start_outcome_def succeeded_def result_def
      dict_get_def)

subsection \<open>The handle and the flag\<close>

lemma step_handle:
  assumes "is_running s \<longrightarrow> carplay_process s \<noteq> None"
  shows "is_running (apply_event s e) \<longrightarrow> carplay_process (apply_event s e) \<noteq> None"
proof (cases e)
  case (DoStart f w h env)
  show ?thesis
  proof (cases "is_running s")
    case True
    then show ?thesis using assms DoStart by (simp add: start_def)
  next
    case False
    then show ?thesis using start_handle[of s f w h env] DoStart by auto
  qed
next
  case (DoStop env)
  then show ?thesis by (simp add: stop_basic)
next
  case (DoRestart senv env)
  obtain r1 s1 e1 where st: "stop s senv = (r1, s1, e1)"
    by (cases "stop s senv") auto
  obtain r2 s2 e2 where sa: "start s1 True 800 480 env = (r2, s2, e2)"
    by (cases "start s1 True 800 480 env") auto
  have "\<not> is_running s1" using stop_basic[of s senv] st by simp
  then show ?thesis
    using start_handle[of s1 True 800 480 env] sa st DoRestart
    by (auto simp add: restart_def)
next
  case (MonitorTurn obs)
  then show ?thesis using assms by (auto simp add: monitor_running monitor_handle)
qed

lemma run_handle:
  "is_running s \<longrightarrow> carplay_process s \<noteq> None \<Longrightarrow>
   is_running (run s es) \<longrightarrow> carplay_process (run s es) \<noteq> None"
proof (induction es arbitrary: s)
  case Nil
  then show ?case by simp
next
  case (Cons e es)
  show ?case
    using Cons.IH[OF step_handle[OF Cons.prems, of e]] by simp
qed

text \<open>
  Claim C3, as the code has it. At every state reached from a new supervisor by
  completed \<^verbatim>\<open>start\<close>, \<^verbatim>\<open>stop\<close> and \<^verbatim>\<open>restart\<close> calls and turns of the monitor: if
  \<^verbatim>\<open>is_running\<close> is true then \<^verbatim>\<open>carplay_process\<close> is not \<^verbatim>\<open>None\<close>. The converse
  does not hold: the handle stays set while the flag is false.
\<close>

theorem running_has_handle:
  "is_running (run (init root) es) \<longrightarrow> carplay_process (run (init root) es) \<noteq> None"
  by (rule run_handle) (simp add: init_def)

theorem running_has_handle_witness:
  "is_running (run (init ''/srv'') [DoStart True 800 480 env_alive]) \<and>
   carplay_process (run (init ''/srv'') [DoStart True 800 480 env_alive]) = Some 4242"
  using running_has_handle[of "''/srv''" "[DoStart True 800 480 env_alive]"]
  by (simp add: example_defs)

text \<open>
  The claim as it is written fails after a \<^verbatim>\<open>start\<close> whose process died within the
  half second (line 137 keeps the handle), and after the monitor has recorded the exit
  of a running process (lines 307 and 308 clear the flag only).
\<close>

theorem handle_without_running_counterexample:
  "\<not> (carplay_process (run (init ''/srv'') [DoStart True 800 480 env_crash]) \<noteq> None \<longleftrightarrow>
       is_running (run (init ''/srv'') [DoStart True 800 480 env_crash])) \<and>
   \<not> (carplay_process
         (run (init ''/srv'') [DoStart True 800 480 env_alive, MonitorTurn ProcessExited])
         \<noteq> None \<longleftrightarrow>
       is_running
         (run (init ''/srv'') [DoStart True 800 480 env_alive, MonitorTurn ProcessExited]))"
  by (simp add: example_defs)

subsection \<open>stop\<close>

lemma stop_process_clears:
  assumes "terminated_cleanly env"
  shows "carplay_process (fst (snd (stop_process s p env))) = None \<and>
         connected_device (fst (snd (stop_process s p env))) = None \<and>
         error_message (fst (snd (stop_process s p env))) = None"
  using assms
  by (auto simp add: stop_process_def terminated_cleanly_def stop_finish_simps)

text \<open>
  Claim C2, as the code has it. Every call of \<^verbatim>\<open>stop\<close> returns success, and on return
  \<^verbatim>\<open>is_running\<close> is false and \<^verbatim>\<open>last_status\<close> is \<^verbatim>\<open>stopped\<close>. The handle,
  \<^verbatim>\<open>connected_device\<close> and \<^verbatim>\<open>error_message\<close> are cleared when a running process was
  terminated and nothing raised; when \<^verbatim>\<open>stop\<close> finds nothing running (lines 165 to
  172), the three fields are left as they were.
\<close>

theorem stop_always_succeeds:
  "succeeded (fst (stop s env)) \<and>
   \<not> is_running (fst (snd (stop s env))) \<and>
   last_status (fst (snd (stop s env))) = ''stopped'' \<and>
   (is_running s \<and> carplay_process s \<noteq> None \<and> terminated_cleanly env \<longrightarrow>
      carplay_process (fst (snd (stop s env))) = None \<and>
      connected_device (fst (snd (stop s env))) = None \<and>
      error_message (fst (snd (stop s env))) = None) \<and>
   (\<not> (is_running s \<and> carplay_process s \<noteq> None) \<longrightarrow>
      carplay_process (fst (snd (stop s env))) = carplay_process s \<and>
      connected_device (fst (snd (stop s env))) = connected_device s \<and>
      error_message (fst (snd (stop s env))) = error_message s)"
proof -
  have basic: "succeeded (fst (stop s env)) \<and> \<not> is_running (fst (snd (stop s env))) \<and>
      last_status (fst (snd (stop s env))) = ''stopped''"
    using stop_basic[of s env] by simp
  show ?thesis
  proof (cases "is_running s \<and> carplay_process s \<noteq> None")
    case True
    then obtain p where p: "carplay_process s = Some p" by auto
    have "stop s env = stop_process s p env" using True p by (simp add: stop_def)
    then show ?thesis using basic stop_process_clears[of env s p] True by simp
  next
    case False
    have "stop s env = stop_idle s (stop_host env)"
      using False by (auto simp add: stop_def split: option.splits bool.splits)
    then show ?thesis using basic False by (auto simp add: stop_idle_simps)
  qed
qed

theorem stop_always_succeeds_witness:
  "is_running started \<and> carplay_process started \<noteq> None \<and> terminated_cleanly senv_clean \<and>
   succeeded (fst (stop started senv_clean)) \<and>
   carplay_process (fst (snd (stop started senv_clean))) = None \<and>
   \<not> (is_running (init ''/srv'') \<and> carplay_process (init ''/srv'') \<noteq> None) \<and>
   error_message (fst (snd (stop (init ''/srv'') senv_clean))) = None"
  using stop_always_succeeds[of started senv_clean]
    stop_always_succeeds[of "init ''/srv''" senv_clean]
  by (simp add: terminated_cleanly_def example_defs)

text \<open>
  The claim as it is written fails where \<^verbatim>\<open>stop\<close> finds nothing running after a
  \<^verbatim>\<open>start\<close> whose process died at once: the early return of lines 165 to 172 keeps the
  handle and the error message of that \<^verbatim>\<open>start\<close>.
\<close>

theorem stop_keeps_fields_counterexample:
  "\<not> (carplay_process
         (fst (snd (stop (fst (snd (start (init ''/srv'') True 800 480 env_crash)))
            senv_clean))) = None) \<and>
   \<not> (error_message
         (fst (snd (stop (fst (snd (start (init ''/srv'') True 800 480 env_crash)))
            senv_clean))) = None)"
  by (simp add: example_defs)

text \<open>
  The handler of lines 197 to 205 is a third path, taken when terminating a running
  process raises. It sets the flag and the status as the other two do; unlike lines 185
  to 189 it does not touch the handle, which here still names the process.
\<close>

lemma stop_handler_at_fault:
  "succeeded (fst (stop started senv_fault)) \<and>
   \<not> is_running (fst (snd (stop started senv_fault))) \<and>
   carplay_process (fst (snd (stop started senv_fault))) = Some 4242"
  by (simp add: example_defs)

subsection \<open>start\<close>





lemma start_except_failure:
  "dict_get (fst (start_except s h e effs)) ''success'' = Some (PBool False)"
  by (cases e) (simp_all add: start_except_def Let_def result_def dict_get_def)

lemma start_reaches_spawned:
  assumes "\<not> is_running s" and "exe_exists (start_host env)" and "setup_ok env"
    and "popen_outcome env = Inr p"
  shows "start s f w h env =
           start_spawned s p env
             [Mkdir (parent (settings_path s)),
              Mkdir (parent (settings_path s)),
              OpenFile (settings_path s) ''w'',
              WriteText (settings_path s) (settings_text s f w h),
              Popen (command s env) (child_environ env) (engine_dir s)]"
  using assms by (simp add: start_def is_built_def setup_ok_def write_settings_def)

lemma start_spawned_exit:
  assumes "\<not> is_running s" and "poll_after_grace env = Some rc"
  shows "dict_get (fst (start_spawned s p env effs)) ''success'' = Some (PBool False) \<and>
         \<not> is_running (fst (snd (start_spawned s p env effs))) \<and>
         (\<forall>text. stderr_decoded env = Inr text \<longrightarrow>
            dict_get (fst (start_spawned s p env effs)) ''message'' =
              Some (PStr (''CarPlay failed to start: '' @ error_text text)) \<and>
            error_message (fst (snd (start_spawned s p env effs))) = Some (error_text text))"
proof (cases "stderr_decoded env")
  case (Inl e)
  then show ?thesis
    using assms
    by (simp add: start_spawned_def Let_def start_except_failure start_except_running)
next
  case (Inr decoded)
  then show ?thesis
    using assms by (simp add: start_spawned_def Let_def result_def dict_get_def)
qed

text \<open>
  Claim C6, as the code has it. If the process that \<^verbatim>\<open>start\<close> spawned has exited when
  the half second is over, \<^verbatim>\<open>start\<close> returns a failure and \<^verbatim>\<open>is_running\<close> is false
  afterwards; and when the standard error of the process decodes, the message is
  \<^verbatim>\<open>CarPlay failed to start: \<close> followed by the error text, which is also stored as
  \<^verbatim>\<open>error_message\<close>, the error text being the decoded standard error when the process
  wrote any and \<^verbatim>\<open>Process terminated unexpectedly\<close> when it wrote none.
\<close>

theorem start_early_exit:
  assumes "\<not> is_running s" and "exe_exists (start_host env)" and "setup_ok env"
    and "popen_outcome env = Inr p" and "poll_after_grace env = Some rc"
  shows "dict_get (fst (start s f w h env)) ''success'' = Some (PBool False) \<and>
         \<not> is_running (fst (snd (start s f w h env))) \<and>
         (\<forall>text. stderr_decoded env = Inr text \<longrightarrow>
            dict_get (fst (start s f w h env)) ''message'' =
              Some (PStr (''CarPlay failed to start: '' @ error_text text)) \<and>
            error_message (fst (snd (start s f w h env))) = Some (error_text text))"
  unfolding start_reaches_spawned[OF assms(1-4)]
  by (rule start_spawned_exit[OF assms(1,5)])

theorem start_early_exit_witness:
  "\<not> is_running (init ''/srv'') \<and> exe_exists (start_host env_crash) \<and> setup_ok env_crash \<and>
   popen_outcome env_crash = Inr 4242 \<and> poll_after_grace env_crash = Some 1 \<and>
   stderr_decoded env_crash = Inr ''no dongle'' \<and>
   dict_get (fst (start (init ''/srv'') True 800 480 env_crash)) ''message'' =
     Some (PStr ''CarPlay failed to start: no dongle'') \<and>
   error_message (fst (snd (start (init ''/srv'') True 800 480 env_crash))) = Some ''no dongle''"
  using start_early_exit[of "init ''/srv''" env_crash 4242 1 True 800 480]
  by (simp add: init_def env_crash_def env_alive_def host_ok_def setup_ok_def error_text_def)

text \<open>
  The claim as it is written fails for a process that dies without writing to its
  standard error: the captured error output is empty, and what \<^verbatim>\<open>start\<close> stores as
  \<^verbatim>\<open>error_message\<close> is not that output but the fixed text of line 138.
\<close>

theorem start_silent_exit_counterexample:
  "poll_after_grace env_silent = Some 1 \<and> stderr_decoded env_silent = Inr [] \<and>
   \<not> (error_message (fst (snd (start (init ''/srv'') True 800 480 env_silent))) = Some [])"
  by (simp add: example_defs)

subsection \<open>restart\<close>










subsection \<open>send\_key\<close>

lemma lower_char_idem: "lower_char (lower_char c) = lower_char c"
proof (cases "(65 \<le> (of_char c :: nat) \<and> (of_char c :: nat) \<le> 90) \<or>
    (192 \<le> (of_char c :: nat) \<and> (of_char c :: nat) \<le> 222 \<and> (of_char c :: nat) \<noteq> 215)")
  case True
  then have "(of_char (char_of (of_char c + 32 :: nat)) :: nat) = of_char c + 32"
    by auto
  then show ?thesis using True by (auto simp add: lower_char_def Let_def)
next
  case False
  then show ?thesis by (auto simp add: lower_char_def Let_def)
qed

lemma lower_idem: "lower (lower k) = lower k"
  by (simp add: lower_def lower_char_idem)

lemmas char_eval = lower_def lower_char_def char_of_def bit_Suc_0_iff

lemma send_key_unknown:
  assumes "pipe_exists env" and "map_of key_map (lower k) = None"
  shows "send_key s k env = (Some (key_result False (''Unknown key: '' @ k)), [])"
  using assms by (simp add: send_key_def)

lemma send_key_incomplete:
  assumes "open_outcome env \<noteq> Completes \<or> write_outcome env \<noteq> Completes"
  shows "bytes_written (pipe_path s) (snd (send_key s k env)) = []"
  using assms
  by (cases "open_outcome env"; cases "write_outcome env")
     (simp_all add: send_key_def split: option.splits)

text \<open>
  Claim C5, as the code has it. When the pipe exists and opening it and writing to it
  complete, \<^verbatim>\<open>send_key("select")\<close> writes the bytes 104 and 105 to it, in that order
  and nothing else, and \<^verbatim>\<open>send_key("left")\<close> writes the one byte 100. When the pipe
  exists, \<^verbatim>\<open>send_key\<close> with a name that is not in the key map, \<^verbatim>\<open>bogus\<close> for one,
  returns a failure and writes nothing. When opening or writing raises or blocks, no byte
  is written.
\<close>

theorem send_key_bytes:
  assumes "pipe_exists env"
  shows "(open_outcome env = Completes \<and> write_outcome env = Completes \<longrightarrow>
            send_key s ''select'' env =
              (Some (key_result True ''Key select sent''),
               [OpenFile (pipe_path s) ''wb'', WriteBytes (pipe_path s) [104],
                WriteBytes (pipe_path s) [105]]) \<and>
            bytes_written (pipe_path s) (snd (send_key s ''select'' env)) = [104, 105] \<and>
            send_key s ''left'' env =
              (Some (key_result True ''Key left sent''),
               [OpenFile (pipe_path s) ''wb'', WriteBytes (pipe_path s) [100]]) \<and>
            bytes_written (pipe_path s) (snd (send_key s ''left'' env)) = [100]) \<and>
         (\<forall>k. map_of key_map (lower k) = None \<longrightarrow>
            send_key s k env = (Some (key_result False (''Unknown key: '' @ k)), [])) \<and>
         send_key s ''bogus'' env = (Some (key_result False ''Unknown key: bogus''), []) \<and>
         (\<forall>k. open_outcome env \<noteq> Completes \<or> write_outcome env \<noteq> Completes \<longrightarrow>
            bytes_written (pipe_path s) (snd (send_key s k env)) = [])"
proof -
  have known: "open_outcome env = Completes \<and> write_outcome env = Completes \<longrightarrow>
            send_key s ''select'' env =
              (Some (key_result True ''Key select sent''),
               [OpenFile (pipe_path s) ''wb'', WriteBytes (pipe_path s) [104],
                WriteBytes (pipe_path s) [105]]) \<and>
            bytes_written (pipe_path s) (snd (send_key s ''select'' env)) = [104, 105] \<and>
            send_key s ''left'' env =
              (Some (key_result True ''Key left sent''),
               [OpenFile (pipe_path s) ''wb'', WriteBytes (pipe_path s) [100]]) \<and>
            bytes_written (pipe_path s) (snd (send_key s ''left'' env)) = [100]"
    using assms by (simp add: send_key_def key_map_def char_eval)
  have bogus: "send_key s ''bogus'' env = (Some (key_result False ''Unknown key: bogus''), [])"
    using assms by (simp add: send_key_def key_map_def char_eval)
  show ?thesis
    using known bogus send_key_unknown[OF assms, of _ s] send_key_incomplete[of env s]
    by blast
qed

theorem send_key_bytes_witness:
  "pipe_exists kenv_ok \<and> open_outcome kenv_ok = Completes \<and> write_outcome kenv_ok = Completes \<and>
   bytes_written ''/tmp/fastcarplay_pipe'' (snd (send_key (init ''/srv'') ''select'' kenv_ok)) =
     [104, 105] \<and>
   bytes_written ''/tmp/fastcarplay_pipe'' (snd (send_key (init ''/srv'') ''left'' kenv_ok)) =
     [100] \<and>
   map_of key_map (lower ''Volume'') = None \<and>
   send_key (init ''/srv'') ''Volume'' kenv_ok =
     (Some (key_result False ''Unknown key: Volume''), []) \<and>
   pipe_exists kenv_no_reader \<and> open_outcome kenv_no_reader \<noteq> Completes \<and>
   bytes_written ''/tmp/fastcarplay_pipe'' (snd (send_key (init ''/srv'') ''left'' kenv_no_reader)) =
     []"
  using send_key_bytes[of kenv_ok "init ''/srv''"]
    send_key_bytes[of kenv_no_reader "init ''/srv''"]
  by (simp add: kenv_ok_def kenv_no_reader_def init_def key_map_def char_eval)

text \<open>
  The claim as it is written fails where the pipe exists and has no reader: the
  \<^verbatim>\<open>open\<close> of line 228 waits for one, \<^verbatim>\<open>send_key("select")\<close> does not return, and
  no byte is written.
\<close>

theorem send_key_no_reader_counterexample:
  "pipe_exists kenv_no_reader \<and>
   fst (send_key (init ''/srv'') ''select'' kenv_no_reader) = None \<and>
   \<not> (bytes_written (pipe_path (init ''/srv''))
         (snd (send_key (init ''/srv'') ''select'' kenv_no_reader)) = [104, 105])"
  by (simp add: send_key_def key_map_def char_eval kenv_ok_def kenv_no_reader_def)

text \<open>
  Claim C10, as the code has it. \<^verbatim>\<open>send_key\<close> applied to a key name in any casing
  has the effects, and so writes the bytes, of \<^verbatim>\<open>send_key\<close> applied to the lower-case
  form of the name; it returns when that one returns, with the same \<^verbatim>\<open>success\<close> flag.
  The message is not the same: it repeats the name as the caller wrote it.
\<close>

theorem send_key_any_case:
  "snd (send_key s k env) = snd (send_key s (lower k) env) \<and>
   map_option (\<lambda>r. dict_get r ''success'') (fst (send_key s k env)) =
     map_option (\<lambda>r. dict_get r ''success'') (fst (send_key s (lower k) env)) \<and>
   bytes_written (pipe_path s) (snd (send_key s k env)) =
     bytes_written (pipe_path s) (snd (send_key s (lower k) env))"
  by (simp add: send_key_def lower_idem key_result_def dict_get_def
      split: option.splits io_outcome.splits)

theorem send_key_any_case_witness:
  "lower ''Select'' = ''select'' \<and>
   bytes_written ''/tmp/fastcarplay_pipe'' (snd (send_key (init ''/srv'') ''Select'' kenv_ok)) =
     [104, 105] \<and>
   snd (send_key (init ''/srv'') ''Select'' kenv_ok) =
     snd (send_key (init ''/srv'') ''select'' kenv_ok)"
  using send_key_any_case[of "init ''/srv''" "''Select''" kenv_ok]
  by (simp add: send_key_def key_map_def char_eval kenv_ok_def init_def)

text \<open>
  The claim as it is written fails on the result: \<^verbatim>\<open>send_key("LEFT")\<close> and
  \<^verbatim>\<open>send_key("left")\<close> return different messages (line 233).
\<close>

theorem send_key_echo_counterexample:
  "\<not> (fst (send_key (init ''/srv'') ''LEFT'' kenv_ok) =
       fst (send_key (init ''/srv'') (lower ''LEFT'') kenv_ok))"
  by (simp add: send_key_def key_map_def char_eval key_result_def kenv_ok_def)

subsection \<open>The shape of the results\<close>

lemma result_is_shaped: "result_shaped (result ok msg (get_status s h))"
  by (simp add: result_shaped_def result_def get_status_def dict_get_def)

lemma start_except_result:
  "\<exists>ok msg s'. fst (start_except s h e effs) = result ok msg (get_status s' h)"
  by (cases e) (auto simp add: start_except_def Let_def)

lemma start_spawned_result:
  "\<exists>ok msg s'. fst (start_spawned s p env effs) = result ok msg (get_status s' (start_host env))"
  using start_except_result[of "s\<lparr>carplay_process := Some p\<rparr>" "start_host env" _ effs]
    start_except_result[of "s\<lparr>carplay_process := Some p, is_running := True,
      last_status := ''running'', error_message := None\<rparr>" "start_host env" _ effs]
  by (auto simp add: start_spawned_def Let_def split: option.splits sum.splits)

lemma start_result:
  "\<exists>ok msg s'. fst (start s f w h env) = result ok msg (get_status s' (start_host env))"
proof -
  obtain r effs where ws: "write_settings s f w h env = (r, effs)"
    by (cases "write_settings s f w h env")
  show ?thesis
    using ws start_except_result[of s "start_host env"] start_spawned_result[of s _ env]
    by (auto simp add: start_def split: option.splits sum.splits)
qed

lemma stop_result:
  "\<exists>ok msg s'. fst (stop s env) = result ok msg (get_status s' (stop_host env))"
  by (auto simp add: stop_def stop_idle_def stop_process_def stop_finish_def stop_except_def
      Let_def split: option.splits bool.splits wait_result.splits)

lemma restart_result:
  "\<exists>ok msg s'. fst (restart s senv env) = result ok msg (get_status s' (start_host env))"
proof -
  obtain r1 s1 e1 where st: "stop s senv = (r1, s1, e1)"
    by (cases "stop s senv") auto
  obtain r2 s2 e2 where sa: "start s1 True 800 480 env = (r2, s2, e2)"
    by (cases "start s1 True 800 480 env") auto
  show ?thesis using start_result[of s1 True 800 480 env] st sa by (simp add: restart_def)
qed

lemma send_key_result:
  "fst (send_key s k kenv) = Some r \<Longrightarrow> \<exists>ok msg. r = key_result ok msg"
  by (auto simp add: send_key_def split: option.splits io_outcome.splits if_splits)

text \<open>
  Claim C9, as the code has it. \<^verbatim>\<open>start\<close>, \<^verbatim>\<open>stop\<close> and \<^verbatim>\<open>restart\<close> return a
  dictionary with a boolean \<^verbatim>\<open>success\<close>, a string \<^verbatim>\<open>message\<close> and a status
  snapshot \<^verbatim>\<open>status\<close>. Every result of \<^verbatim>\<open>send_key\<close> has \<^verbatim>\<open>success\<close> and
  \<^verbatim>\<open>message\<close> only, and \<^verbatim>\<open>get_status\<close> returns the status snapshot itself, with its
  eight keys.
\<close>

theorem result_shapes:
  "result_shaped (fst (start s f w h env)) \<and>
   result_shaped (fst (stop s senv)) \<and>
   result_shaped (fst (restart s senv env)) \<and>
   (\<forall>r. fst (send_key s k kenv) = Some r \<longrightarrow>
      dict_keys r = [''success'', ''message''] \<and> \<not> result_shaped r) \<and>
   dict_keys (get_status s hst) =
     [''running'', ''built'', ''status'', ''connected_device'', ''dongle_detected'', ''error'',
      ''executable_path'', ''settings_path''] \<and>
   \<not> result_shaped (get_status s hst)"
proof -
  have 1: "result_shaped (fst (start s f w h env))"
    using start_result[of s f w h env] result_is_shaped by auto
  have 2: "result_shaped (fst (stop s senv))"
    using stop_result[of s senv] result_is_shaped by auto
  have 3: "result_shaped (fst (restart s senv env))"
    using restart_result[of s senv env] result_is_shaped by auto
  have 4: "\<forall>r. fst (send_key s k kenv) = Some r \<longrightarrow>
      dict_keys r = [''success'', ''message''] \<and> \<not> result_shaped r"
  proof (intro allI impI)
    fix r
    assume "fst (send_key s k kenv) = Some r"
    then obtain ok msg where "r = key_result ok msg"
      using send_key_result by blast
    then show "dict_keys r = [''success'', ''message''] \<and> \<not> result_shaped r"
      by (simp add: key_result_def dict_keys_def result_shaped_def dict_get_def)
  qed
  have 5: "dict_keys (get_status s hst) =
     [''running'', ''built'', ''status'', ''connected_device'', ''dongle_detected'', ''error'',
      ''executable_path'', ''settings_path''] \<and> \<not> result_shaped (get_status s hst)"
    by (simp add: get_status_def dict_keys_def result_shaped_def dict_get_def)
  show ?thesis using 1 2 3 4 5 by blast
qed

theorem result_shapes_witness:
  "result_shaped (fst (start (init ''/srv'') True 800 480 env_alive)) \<and>
   dict_get (fst (start (init ''/srv'') True 800 480 env_alive)) ''message'' =
     Some (PStr ''CarPlay started successfully'') \<and>
   fst (send_key (init ''/srv'') ''home'' kenv_ok) = Some (key_result True ''Key home sent'') \<and>
   dict_keys (key_result True ''Key home sent'') = [''success'', ''message'']"
  using result_shapes[of "init ''/srv''" True 800 480 env_alive senv_clean "''home''" kenv_ok
      host_ok]
  by (simp add: example_defs result_def dict_get_def send_key_def key_map_def char_eval
      kenv_ok_def)

text \<open>
  The claim as it is written fails for the two operations that are not lifecycle
  operations: the result of \<^verbatim>\<open>send_key\<close> has no \<^verbatim>\<open>status\<close>, and that of
  \<^verbatim>\<open>get_status\<close> has neither \<^verbatim>\<open>success\<close> nor \<^verbatim>\<open>message\<close>.
\<close>

theorem result_shapes_counterexample:
  "fst (send_key (init ''/srv'') ''left'' kenv_ok) = Some (key_result True ''Key left sent'') \<and>
   \<not> result_shaped (key_result True ''Key left sent'') \<and>
   \<not> result_shaped (get_status (init ''/srv'') host_ok)"
  by (simp add: send_key_def key_map_def char_eval key_result_def kenv_ok_def
      result_shaped_def dict_get_def get_status_def)

end
